theory Spec2Isabelle
  imports Complex_Main
begin

section \<open>Numbers and plain geometry\<close>

text \<open>
  A JavaScript number is an IEEE 754 double. A finite double is modelled by the real number
  it denotes, the other values by \<open>PosInf\<close>, \<open>NegInf\<close> and \<open>NaN\<close>. The sign of zero is not
  modelled: no operation of the program tells \<open>-0\<close> from \<open>0\<close>. The code itself produces \<open>NaN\<close>
  from finite inputs: \<open>0 / 0\<close> in \<open>generatePath\<close>, arithmetic on an \<open>undefined\<close> property.
\<close>

datatype num = Num real | PosInf | NegInf | NaN

text \<open>
  Rounding a real number to a double, as every arithmetic operation of JavaScript does with
  its exact result: to the nearest multiple of the spacing of the doubles around it, a tie
  to the multiple with the even significand. The spacing around \<open>r\<close> is \<open>2\<close> to the power
  \<open>quantum_exp r\<close>: 53 significant bits, and the subnormal spacing \<open>2 powi - 1074\<close> at the
  bottom of the range. A result beyond the largest double \<open>max_double\<close> is an infinity.
\<close>

definition round_ties_even :: "real \<Rightarrow> int" where
  "round_ties_even r =
     (let f = \<lfloor>r\<rfloor>; d = r - of_int f
      in if d < 1 / 2 then f else if 1 / 2 < d then f + 1 else if even f then f else f + 1)"

definition quantum_exp :: "real \<Rightarrow> int" where
  "quantum_exp r = max (\<lfloor>log 2 \<bar>r\<bar>\<rfloor> - 52) (- 1074)"

definition max_double :: real where
  "max_double = (2 ^ 53 - 1) * 2 ^ 971"

definition to_double :: "real \<Rightarrow> num" where
  "to_double r =
     (if r = 0 then Num 0
      else
        (let q = 2 powi quantum_exp r;
             v = of_int (round_ties_even (r / q)) * q
         in if max_double < v then PosInf else if v < - max_double then NegInf else Num v))"

text \<open>
  The operators \<open>+\<close>, \<open>-\<close> and \<open>/ 2\<close> on numbers: the exact result rounded; \<open>NaN\<close> propagates,
  and so do the infinities, the sum of opposite infinities being \<open>NaN\<close>.
\<close>

fun num_add :: "num \<Rightarrow> num \<Rightarrow> num" where
  "num_add (Num a) (Num b) = to_double (a + b)"
| "num_add NaN _ = NaN"
| "num_add _ NaN = NaN"
| "num_add PosInf NegInf = NaN"
| "num_add NegInf PosInf = NaN"
| "num_add PosInf _ = PosInf"
| "num_add _ PosInf = PosInf"
| "num_add NegInf _ = NegInf"
| "num_add _ NegInf = NegInf"

fun num_sub :: "num \<Rightarrow> num \<Rightarrow> num" where
  "num_sub (Num a) (Num b) = to_double (a - b)"
| "num_sub NaN _ = NaN"
| "num_sub _ NaN = NaN"
| "num_sub PosInf PosInf = NaN"
| "num_sub NegInf NegInf = NaN"
| "num_sub PosInf _ = PosInf"
| "num_sub NegInf _ = NegInf"
| "num_sub _ PosInf = NegInf"
| "num_sub _ NegInf = PosInf"

fun num_half :: "num \<Rightarrow> num" where
  "num_half (Num a) = to_double (a / 2)"
| "num_half PosInf = PosInf"
| "num_half NegInf = NegInf"
| "num_half NaN = NaN"

text \<open>The comparisons \<open><\<close> and \<open>>\<close>; every comparison with \<open>NaN\<close> is false.\<close>

fun num_lt :: "num \<Rightarrow> num \<Rightarrow> bool" where
  "num_lt (Num a) (Num b) = (a < b)"
| "num_lt (Num a) PosInf = True"
| "num_lt NegInf (Num b) = True"
| "num_lt NegInf PosInf = True"
| "num_lt _ _ = False"

fun num_gt :: "num \<Rightarrow> num \<Rightarrow> bool" where
  "num_gt (Num a) (Num b) = (a > b)"
| "num_gt PosInf (Num b) = True"
| "num_gt (Num a) NegInf = True"
| "num_gt PosInf NegInf = True"
| "num_gt _ _ = False"

text \<open>Object literals \<open>{x, y}\<close> and \<open>{x, y, width, height}\<close>.\<close>

record 'n point =
  x :: 'n
  y :: 'n

record 'n rect = "'n point" +
  width :: 'n
  height :: 'n

section \<open>Character.js\<close>

text \<open>
  The field \<open>size\<close> of the source is called \<open>csize\<close> here. \<open>direction\<close> is \<open>None\<close> for
  \<open>null\<close>.
\<close>

record Character = "num point" +
  csize :: num
  direction :: "string option"
  initialX :: num
  initialY :: num

definition Character_new :: "num \<Rightarrow> num \<Rightarrow> num \<Rightarrow> Character" where
  "Character_new x0 y0 sz =
     \<lparr>x = x0, y = y0, csize = sz, direction = None, initialX = x0, initialY = y0\<rparr>"

definition validDirections :: "string list" where
  "validDirections = [''up'', ''down'', ''left'', ''right'']"

definition setDirection :: "string \<Rightarrow> Character \<Rightarrow> Character" where
  "setDirection d c = (if d \<in> set validDirections then c\<lparr>direction := Some d\<rparr> else c)"

text \<open>\<open>update(speed)\<close>: \<open>!this.direction\<close> holds for \<open>null\<close> and for the empty string.\<close>

definition Character_update :: "num \<Rightarrow> Character \<Rightarrow> Character" where
  "Character_update speed c =
     (case direction c of
        None \<Rightarrow> c
      | Some d \<Rightarrow>
          if d = [] then c
          else if d = ''up'' then c\<lparr>y := num_sub (y c) speed\<rparr>
          else if d = ''down'' then c\<lparr>y := num_add (y c) speed\<rparr>
          else if d = ''left'' then c\<lparr>x := num_sub (x c) speed\<rparr>
          else if d = ''right'' then c\<lparr>x := num_add (x c) speed\<rparr>
          else c)"

definition getPosition :: "Character \<Rightarrow> num point" where
  "getPosition c = \<lparr>x = x c, y = y c\<rparr>"

definition getBounds :: "Character \<Rightarrow> num rect" where
  "getBounds c = \<lparr>x = x c, y = y c, width = csize c, height = csize c\<rparr>"

text \<open>
  \<open>reset(x, y)\<close>: an argument is \<open>None\<close> when it is omitted (\<open>undefined\<close>). With both
  arguments given the code also overwrites \<open>initialX\<close> and \<open>initialY\<close>.
\<close>

definition Character_reset :: "num option \<Rightarrow> num option \<Rightarrow> Character \<Rightarrow> Character" where
  "Character_reset ax ay c =
     (case (ax, ay) of
        (Some nx, Some ny) \<Rightarrow>
          c\<lparr>x := nx, y := ny, initialX := nx, initialY := ny, direction := None\<rparr>
      | _ \<Rightarrow> c\<lparr>x := initialX c, y := initialY c, direction := None\<rparr>)"

text \<open>A caller's sequence of operations on one character, applied left to right.\<close>

datatype char_op = SetDirection string | Update num | Reset "num option" "num option"

fun apply_op :: "char_op \<Rightarrow> Character \<Rightarrow> Character" where
  "apply_op (SetDirection d) c = setDirection d c"
| "apply_op (Update s) c = Character_update s c"
| "apply_op (Reset ax ay) c = Character_reset ax ay c"

fun run_ops :: "char_op list \<Rightarrow> Character \<Rightarrow> Character" where
  "run_ops [] c = c"
| "run_ops (a # ops) c = run_ops ops (apply_op a c)"

text \<open>
  The point a later argument-less \<open>reset()\<close> returns to: the point of the most recent
  two-argument \<open>reset\<close> in the sequence, the starting point when there is none.
\<close>

fun home_point :: "num \<times> num \<Rightarrow> char_op list \<Rightarrow> num \<times> num" where
  "home_point p [] = p"
| "home_point p (Reset (Some a) (Some b) # ops) = home_point (a, b) ops"
| "home_point p (_ # ops) = home_point p ops"

section \<open>LevelGenerator.js\<close>

datatype error = InvalidDifficulty string | TypeError | CanvasRequired

text \<open>
  A value of the \<open>difficultySettings\<close> table. The table is an object literal, so the lookup
  \<open>this.difficultySettings[difficulty]\<close> also finds the members every object inherits from
  \<open>Object.prototype\<close>; \<open>Inherited k\<close> is such a member (a function or object: truthy, and
  without \<open>pathWidth\<close> or \<open>characterSpeed\<close>).
\<close>

datatype settings = Settings real real | Inherited string

definition Object_prototype_keys :: "string list" where
  "Object_prototype_keys =
     [''constructor'', ''hasOwnProperty'', ''isPrototypeOf'', ''propertyIsEnumerable'',
      ''toLocaleString'', ''toString'', ''valueOf'', ''__proto__'', ''__defineGetter__'',
      ''__defineSetter__'', ''__lookupGetter__'', ''__lookupSetter__'']"

text \<open>\<open>None\<close> is \<open>undefined\<close>.\<close>

definition difficultySettings :: "string \<Rightarrow> settings option" where
  "difficultySettings k =
     (if k = ''easy'' then Some (Settings 100 2)
      else if k = ''medium'' then Some (Settings 60 3)
      else if k = ''hard'' then Some (Settings 40 4)
      else if k = ''super-hard'' then Some (Settings 30 6)
      else if k \<in> set Object_prototype_keys then Some (Inherited k)
      else None)"

text \<open>
  The fields \<open>width\<close>, \<open>height\<close>, \<open>difficulty\<close> and \<open>walls\<close> of the source carry the prefix
  \<open>lg\<close>. A path point is \<open>None\<close> when the code pushes \<open>{x: NaN, y: NaN}\<close>.

  The geometry of the generator (products, quotients, square roots, \<open>Math.floor\<close>) is
  computed on the real numbers: its rounding errors, of relative size \<open>2 powi - 53\<close> per
  operation, are not modelled, and the canvas size, the random results and the
  coordinates are finite.
\<close>

record LevelGenerator =
  lgWidth :: real
  lgHeight :: real
  lgDifficulty :: string
  settings :: settings
  lgWalls :: "num rect list"
  path :: "real point option list"
  startPosition :: "real point option"
  goalPosition :: "real point option"
  waypoints :: "real point list"

definition LevelGenerator_new :: "real \<Rightarrow> real \<Rightarrow> string \<Rightarrow> error + LevelGenerator" where
  "LevelGenerator_new w h d =
     (case difficultySettings d of
        None \<Rightarrow> Inl (InvalidDifficulty d)
      | Some st \<Rightarrow>
          Inr \<lparr>lgWidth = w, lgHeight = h, lgDifficulty = d, settings = st, lgWalls = [],
               path = [], startPosition = None, goalPosition = None, waypoints = []\<rparr>)"

text \<open>
  \<open>Math.random()\<close> is a sequence \<open>g\<close> of results and a position \<open>k\<close> in it: the call
  returns \<open>g k\<close> and moves on to \<open>k + 1\<close>.
\<close>

type_synonym rng = "nat \<Rightarrow> real"

definition rng_ok :: "rng \<Rightarrow> bool" where
  "rng_ok g = (\<forall>k. 0 \<le> g k \<and> g k < 1)"

definition constant_source :: "real \<Rightarrow> rng" where
  "constant_source r k = r"

text \<open>
  The loop \<open>for (i = 1; i <= numWaypoints; i++)\<close>; the last argument counts the iterations
  left.
\<close>

fun waypoint_loop :: "real \<Rightarrow> real \<Rightarrow> rng \<Rightarrow> nat \<Rightarrow> nat \<Rightarrow> nat \<Rightarrow> real point list" where
  "waypoint_loop segmentWidth h g k i 0 = []"
| "waypoint_loop segmentWidth h g k i (Suc m) =
     \<lparr>x = 50 + segmentWidth * real i + (g k - 1 / 2) * 50,
      y = 100 + g (k + 1) * (h - 200)\<rparr>
     # waypoint_loop segmentWidth h g (k + 2) (Suc i) m"

definition generateWaypoints :: "rng \<Rightarrow> nat \<Rightarrow> LevelGenerator \<Rightarrow> LevelGenerator \<times> nat" where
  "generateWaypoints g k lg =
     (let startX = 50;
          startY = lgHeight lg / 2;
          numWaypoints = 3 + \<lfloor>g k * 3\<rfloor>;
          segmentWidth = (lgWidth lg - 150) / (real_of_int numWaypoints + 1);
          n = nat numWaypoints;
          goalX = lgWidth lg - 50;
          goalY = 100 + g (k + 1 + 2 * n) * (lgHeight lg - 200)
      in (lg\<lparr>waypoints :=
               \<lparr>x = startX, y = startY\<rparr>
               # waypoint_loop segmentWidth (lgHeight lg) g (k + 1) 1 n
               @ [\<lparr>x = goalX, y = goalY\<rparr>]\<rparr>,
          k + 2 + 2 * n))"

text \<open>
  The inner loop \<open>for (t = 0; t <= steps; t++)\<close> of \<open>generatePath\<close>; the last argument counts
  the iterations left. With \<open>steps = 0\<close> the ratio is \<open>0 / 0\<close>, and the point pushed is NaN.
\<close>

fun segment_loop ::
  "real point \<Rightarrow> real point \<Rightarrow> nat \<Rightarrow> rng \<Rightarrow> nat \<Rightarrow> nat \<Rightarrow> nat \<Rightarrow> real point option list" where
  "segment_loop s e steps g k t 0 = []"
| "segment_loop s e steps g k t (Suc m) =
     (let midX = (x s + x e) / 2 + (g k - 1 / 2) * 30;
          midY = (y s + y e) / 2 + (g (k + 1) - 1 / 2) * 30
      in if steps = 0 then None
         else
           (let ratio = real t / real steps
            in Some \<lparr>x = (1 - ratio)\<^sup>2 * x s + 2 * (1 - ratio) * ratio * midX + ratio\<^sup>2 * x e,
                     y = (1 - ratio)\<^sup>2 * y s + 2 * (1 - ratio) * ratio * midY + ratio\<^sup>2 * y e\<rparr>))
     # segment_loop s e steps g (k + 2) (Suc t) m"

definition segment_steps :: "real point \<Rightarrow> real point \<Rightarrow> nat" where
  "segment_steps s e = nat \<lfloor>sqrt ((x e - x s)\<^sup>2 + (y e - y s)\<^sup>2) / 5\<rfloor>"

text \<open>The outer loop of \<open>generatePath\<close> over the consecutive pairs of waypoints.\<close>

fun path_loop :: "real point list \<Rightarrow> rng \<Rightarrow> nat \<Rightarrow> real point option list \<times> nat" where
  "path_loop (s # e # rest) g k =
     (let steps = segment_steps s e;
          r = path_loop (e # rest) g (k + 2 * (steps + 1))
      in (segment_loop s e steps g k 0 (steps + 1) @ fst r, snd r))"
| "path_loop [s] g k = ([], k)"
| "path_loop [] g k = ([], k)"

definition generatePath :: "rng \<Rightarrow> nat \<Rightarrow> LevelGenerator \<Rightarrow> LevelGenerator \<times> nat" where
  "generatePath g k lg =
     (let r = path_loop (waypoints lg) g k in (lg\<lparr>path := fst r\<rparr>, snd r))"

text \<open>
  The two wall squares \<open>generateWalls\<close> pushes for the path points \<open>current\<close> and \<open>next\<close>;
  none when \<open>length > 0\<close> fails, which it also does for a NaN point. \<open>halfWidth\<close> is \<open>None\<close>
  when it is NaN (half of an \<open>undefined\<close> path width); the corner of each square is then
  NaN too.
\<close>

definition wall_pair ::
  "real option \<Rightarrow> real point option \<Rightarrow> real point option \<Rightarrow> num rect list" where
  "wall_pair halfWidth current next =
     (case (current, next) of
        (Some c, Some n) \<Rightarrow>
          (let dx = x n - x c;
               dy = y n - y c;
               len = sqrt (dx * dx + dy * dy)
           in if len > 0 then
                (let perpX = - dy / len;
                     perpY = dx / len;
                     wallThickness = 20
                 in case halfWidth of
                      None \<Rightarrow>
                        [\<lparr>x = NaN, y = NaN, width = Num wallThickness, height = Num wallThickness\<rparr>,
                         \<lparr>x = NaN, y = NaN, width = Num wallThickness, height = Num wallThickness\<rparr>]
                    | Some hw \<Rightarrow>
                        (let leftWallX = x c + perpX * (hw + wallThickness / 2);
                             leftWallY = y c + perpY * (hw + wallThickness / 2);
                             rightWallX = x c - perpX * (hw + wallThickness / 2);
                             rightWallY = y c - perpY * (hw + wallThickness / 2)
                         in [\<lparr>x = Num (leftWallX - wallThickness / 2),
                              y = Num (leftWallY - wallThickness / 2),
                              width = Num wallThickness, height = Num wallThickness\<rparr>,
                             \<lparr>x = Num (rightWallX - wallThickness / 2),
                              y = Num (rightWallY - wallThickness / 2),
                              width = Num wallThickness, height = Num wallThickness\<rparr>]))
              else [])
      | _ \<Rightarrow> [])"

fun wall_loop :: "real option \<Rightarrow> real point option list \<Rightarrow> num rect list" where
  "wall_loop halfWidth (current # next # rest) =
     wall_pair halfWidth current next @ wall_loop halfWidth (next # rest)"
| "wall_loop halfWidth [p] = []"
| "wall_loop halfWidth [] = []"

text \<open>The four rectangles around the canvas that \<open>generateWalls\<close> pushes last.\<close>

definition boundary_walls :: "real \<Rightarrow> real \<Rightarrow> num rect list" where
  "boundary_walls w h =
     (let boundaryThickness = 50
      in [\<lparr>x = Num 0, y = Num 0, width = Num w, height = Num boundaryThickness\<rparr>,
          \<lparr>x = Num 0, y = Num (h - boundaryThickness), width = Num w,
           height = Num boundaryThickness\<rparr>,
          \<lparr>x = Num 0, y = Num 0, width = Num boundaryThickness, height = Num h\<rparr>,
          \<lparr>x = Num (w - boundaryThickness), y = Num 0, width = Num boundaryThickness,
           height = Num h\<rparr>])"

text \<open>\<open>settings.pathWidth\<close> and \<open>settings.characterSpeed\<close>; \<open>None\<close> is \<open>undefined\<close>.\<close>

definition getPathWidth :: "LevelGenerator \<Rightarrow> real option" where
  "getPathWidth lg = (case settings lg of Settings pw cs \<Rightarrow> Some pw | Inherited k \<Rightarrow> None)"

definition getCharacterSpeed :: "LevelGenerator \<Rightarrow> real option" where
  "getCharacterSpeed lg = (case settings lg of Settings pw cs \<Rightarrow> Some cs | Inherited k \<Rightarrow> None)"

text \<open>A property value used in arithmetic: \<open>undefined\<close> becomes NaN.\<close>

definition to_num :: "real option \<Rightarrow> num" where
  "to_num v = (case v of Some r \<Rightarrow> Num r | None \<Rightarrow> NaN)"

definition generateWalls :: "LevelGenerator \<Rightarrow> LevelGenerator" where
  "generateWalls lg =
     (let halfWidth = map_option (\<lambda>pathWidth. pathWidth / 2) (getPathWidth lg)
      in lg\<lparr>lgWalls := wall_loop halfWidth (path lg)
                         @ boundary_walls (lgWidth lg) (lgHeight lg)\<rparr>)"

definition setStartAndGoalPositions :: "LevelGenerator \<Rightarrow> LevelGenerator" where
  "setStartAndGoalPositions lg =
     (if length (waypoints lg) \<ge> 2
      then lg\<lparr>startPosition := Some (hd (waypoints lg)),
              goalPosition := Some (last (waypoints lg))\<rparr>
      else lg)"

definition generate :: "rng \<Rightarrow> LevelGenerator \<Rightarrow> LevelGenerator" where
  "generate g lg =
     (let r1 = generateWaypoints g 0 lg;
          r2 = generatePath g (snd r1) (fst r1)
      in setStartAndGoalPositions (generateWalls (fst r2)))"

definition getWalls :: "LevelGenerator \<Rightarrow> num rect list" where
  "getWalls lg = lgWalls lg"

definition getStartPosition :: "LevelGenerator \<Rightarrow> real point option" where
  "getStartPosition lg = startPosition lg"

definition getGoalPosition :: "LevelGenerator \<Rightarrow> real point option" where
  "getGoalPosition lg = goalPosition lg"

definition getPath :: "LevelGenerator \<Rightarrow> real point option list" where
  "getPath lg = path lg"

definition getWaypoints :: "LevelGenerator \<Rightarrow> real point list" where
  "getWaypoints lg = waypoints lg"

text \<open>Construction followed by \<open>generate()\<close>, as the callers of the class do.\<close>

definition newLevel :: "real \<Rightarrow> real \<Rightarrow> string \<Rightarrow> rng \<Rightarrow> error + LevelGenerator" where
  "newLevel w h d g =
     (case LevelGenerator_new w h d of Inl e \<Rightarrow> Inl e | Inr lg \<Rightarrow> Inr (generate g lg))"

section \<open>CollisionDetector.js\<close>

text \<open>
  The detector's \<open>character\<close> is the very object the game manager holds, so the model
  passes the manager's character to the two checks instead of storing a copy.
\<close>

record CollisionDetector =
  walls :: "num rect list"
  goal :: "real point option"
  goalSize :: real
  lastCollisionPoint :: "num point option"

definition CollisionDetector_new :: "num rect list \<Rightarrow> real point option \<Rightarrow> CollisionDetector" where
  "CollisionDetector_new ws gp = \<lparr>walls = ws, goal = gp, goalSize = 30, lastCollisionPoint = None\<rparr>"

definition boundingBoxCollision :: "num rect \<Rightarrow> num rect \<Rightarrow> bool" where
  "boundingBoxCollision rect1 rect2 =
     (num_lt (x rect1) (num_add (x rect2) (width rect2)) \<and>
      num_gt (num_add (x rect1) (width rect1)) (x rect2) \<and>
      num_lt (y rect1) (num_add (y rect2) (height rect2)) \<and>
      num_gt (num_add (y rect1) (height rect1)) (y rect2))"

text \<open>The loop of \<open>checkWallCollision\<close>: true at the first wall that overlaps.\<close>

fun wall_hit :: "num rect \<Rightarrow> num rect list \<Rightarrow> bool" where
  "wall_hit b [] = False"
| "wall_hit b (wall # rest) = (if boundingBoxCollision b wall then True else wall_hit b rest)"

definition checkWallCollision :: "Character \<Rightarrow> CollisionDetector \<Rightarrow> bool \<times> CollisionDetector" where
  "checkWallCollision c cd =
     (let characterBounds = getBounds c
      in if wall_hit characterBounds (walls cd)
         then (True,
               cd\<lparr>lastCollisionPoint :=
                    Some \<lparr>x = num_add (x characterBounds) (num_half (width characterBounds)),
                          y = num_add (y characterBounds) (num_half (height characterBounds))\<rparr>\<rparr>)
         else (False, cd))"

text \<open>
  The hit-box \<open>goalBounds\<close> of \<open>checkGoalCollision\<close>; \<open>this.goal.x\<close> raises a TypeError when
  the goal is \<open>null\<close>.
\<close>

definition goalBounds :: "CollisionDetector \<Rightarrow> real point \<Rightarrow> num rect" where
  "goalBounds cd gp =
     \<lparr>x = num_sub (Num (x gp)) (num_half (Num (goalSize cd))),
      y = num_sub (Num (y gp)) (num_half (Num (goalSize cd))),
      width = Num (goalSize cd), height = Num (goalSize cd)\<rparr>"

definition checkGoalCollision :: "Character \<Rightarrow> CollisionDetector \<Rightarrow> error + bool" where
  "checkGoalCollision c cd =
     (case goal cd of
        None \<Rightarrow> Inl TypeError
      | Some gp \<Rightarrow> Inr (boundingBoxCollision (getBounds c) (goalBounds cd gp)))"

definition getCollisionPoint :: "CollisionDetector \<Rightarrow> num point option" where
  "getCollisionPoint cd = lastCollisionPoint cd"

definition updateWalls :: "num rect list \<Rightarrow> CollisionDetector \<Rightarrow> CollisionDetector" where
  "updateWalls ws cd = cd\<lparr>walls := ws\<rparr>"

definition updateGoal :: "real point option \<Rightarrow> CollisionDetector \<Rightarrow> CollisionDetector" where
  "updateGoal gp cd = cd\<lparr>goal := gp\<rparr>"

definition CollisionDetector_reset :: "CollisionDetector \<Rightarrow> CollisionDetector" where
  "CollisionDetector_reset cd = cd\<lparr>lastCollisionPoint := None\<rparr>"

section \<open>AnimationEngine and InputHandler, as far as the game manager depends on them\<close>

text \<open>
  The particles of an animation are drawn and nothing else; they are left out. The callback
  of an animation is one of the two closures the game manager passes.
\<close>

datatype animation_type = Explosion | VictoryAnimation

datatype callback = ShowGameOverScreen | ShowVictoryScreen

record AnimationEngine =
  isAnimating :: bool
  animationType :: "animation_type option"
  animationStartTime :: int
  animationDuration :: int
  animationCallback :: "callback option"

definition AnimationEngine_new :: AnimationEngine where
  "AnimationEngine_new =
     \<lparr>isAnimating = False, animationType = None, animationStartTime = 0,
      animationDuration = 0, animationCallback = None\<rparr>"

text \<open>\<open>now\<close> is what \<open>Date.now()\<close> returns inside the call.\<close>

definition playExplosion :: "int \<Rightarrow> callback \<Rightarrow> AnimationEngine \<Rightarrow> AnimationEngine" where
  "playExplosion now cb ae =
     ae\<lparr>isAnimating := True, animationType := Some Explosion, animationStartTime := now,
        animationDuration := 1500, animationCallback := Some cb\<rparr>"

definition playVictory :: "int \<Rightarrow> callback \<Rightarrow> AnimationEngine \<Rightarrow> AnimationEngine" where
  "playVictory now cb ae =
     ae\<lparr>isAnimating := True, animationType := Some VictoryAnimation, animationStartTime := now,
        animationDuration := 2500, animationCallback := Some cb\<rparr>"

definition isPlaying :: "AnimationEngine \<Rightarrow> bool" where
  "isPlaying ae = isAnimating ae"

text \<open>\<open>update\<close> returns the engine and the callback it has called, if any.\<close>

definition AnimationEngine_update :: "int \<Rightarrow> AnimationEngine \<Rightarrow> AnimationEngine \<times> callback option" where
  "AnimationEngine_update now ae =
     (if \<not> isAnimating ae then (ae, None)
      else if now - animationStartTime ae \<ge> animationDuration ae
      then (ae\<lparr>isAnimating := False, animationType := None, animationCallback := None\<rparr>,
            animationCallback ae)
      else (ae, None))"

record InputHandler =
  enabled :: bool
  currentDirection :: "string option"

definition InputHandler_new :: InputHandler where
  "InputHandler_new = \<lparr>enabled = False, currentDirection = None\<rparr>"

definition enable :: "InputHandler \<Rightarrow> InputHandler" where
  "enable ih = (if \<not> enabled ih then ih\<lparr>enabled := True\<rparr> else ih)"

definition disable :: "InputHandler \<Rightarrow> InputHandler" where
  "disable ih = (if enabled ih then ih\<lparr>enabled := False\<rparr> else ih)"

definition InputHandler_reset :: "InputHandler \<Rightarrow> InputHandler" where
  "InputHandler_reset ih = ih\<lparr>currentDirection := None\<rparr>"

section \<open>GameManager\<close>

datatype game_state = Menu | Playing | Paused | Gameover | Victory

text \<open>A \<open>CustomEvent\<close> the manager dispatches, with its \<open>detail\<close>: score and difficulty.\<close>

datatype game_event = GameOverEvent int string | VictoryEvent int string

record canvas =
  canvasWidth :: real
  canvasHeight :: real

text \<open>
  Times are integer milliseconds. \<open>gameLoopId\<close> tells whether a frame callback is scheduled
  (the handle is not \<open>null\<close>); the handle itself, \<open>lastFrameTime\<close>, the canvas and the
  renderer, which only draws, are left out. \<open>events\<close> lists the events dispatched so far.
\<close>

record GameManager =
  difficulty :: string
  state :: game_state
  startTime :: int
  currentTime :: int
  score :: int
  gameLoopId :: bool
  character :: "Character option"
  levelGenerator :: "LevelGenerator option"
  collisionDetector :: "CollisionDetector option"
  animationEngine :: "AnimationEngine option"
  inputHandler :: "InputHandler option"
  events :: "game_event list"

text \<open>
  The constructor, called with a canvas (\<open>None\<close> for a missing one) and a difficulty.
  \<open>browser\<close> tells whether the component classes are defined
  (\<open>typeof Character !== 'undefined'\<close>); \<open>g\<close> is the random source \<open>generate()\<close> draws from.
\<close>

definition GameManager_new :: "canvas option \<Rightarrow> string \<Rightarrow> bool \<Rightarrow> rng \<Rightarrow> error + GameManager" where
  "GameManager_new cv d browser g =
     (case cv of
        None \<Rightarrow> Inl CanvasRequired
      | Some cnv \<Rightarrow>
          (let s = \<lparr>difficulty = d, state = Menu, startTime = 0, currentTime = 0, score = 0,
                    gameLoopId = False, character = None, levelGenerator = None,
                    collisionDetector = None, animationEngine = None, inputHandler = None,
                    events = []\<rparr>
           in if browser then
                (case LevelGenerator_new (canvasWidth cnv) (canvasHeight cnv) d of
                   Inl e \<Rightarrow> Inl e
                 | Inr lg0 \<Rightarrow>
                     (let lg = generate g lg0
                      in case getStartPosition lg of
                           None \<Rightarrow> Inl TypeError
                         | Some startPos \<Rightarrow>
                             Inr (s\<lparr>levelGenerator := Some lg,
                                    character :=
                                      Some (Character_new (Num (x startPos)) (Num (y startPos)) (Num 10)),
                                    collisionDetector :=
                                      Some (CollisionDetector_new (getWalls lg) (getGoalPosition lg)),
                                    animationEngine := Some AnimationEngine_new,
                                    inputHandler := Some InputHandler_new\<rparr>)))
              else Inr s))"

definition startGameLoop :: "GameManager \<Rightarrow> GameManager" where
  "startGameLoop s = (if \<not> gameLoopId s then s\<lparr>gameLoopId := True\<rparr> else s)"

definition stopGameLoop :: "GameManager \<Rightarrow> GameManager" where
  "stopGameLoop s = (if gameLoopId s then s\<lparr>gameLoopId := False\<rparr> else s)"

text \<open>\<open>startGame()\<close>; \<open>now\<close> is \<open>Date.now()\<close>. It does not look at the current state.\<close>

definition startGame :: "int \<Rightarrow> GameManager \<Rightarrow> error + GameManager" where
  "startGame now s =
     (let s1 = s\<lparr>state := Playing, startTime := now, currentTime := 0, score := 0\<rparr>;
          r = (case (character s1, levelGenerator s1) of
                 (Some c, Some lg) \<Rightarrow>
                   (case getStartPosition lg of
                      None \<Rightarrow> Inl TypeError
                    | Some startPos \<Rightarrow>
                        Inr (s1\<lparr>character :=
                                   Some (Character_reset (Some (Num (x startPos)))
                                           (Some (Num (y startPos))) c)\<rparr>))
               | _ \<Rightarrow> Inr s1)
      in case r of
           Inl e \<Rightarrow> Inl e
         | Inr s2 \<Rightarrow> Inr (startGameLoop (s2\<lparr>inputHandler := map_option enable (inputHandler s2)\<rparr>)))"

definition pauseGame :: "GameManager \<Rightarrow> GameManager" where
  "pauseGame s =
     (if state s = Playing
      then (let s1 = stopGameLoop (s\<lparr>state := Paused\<rparr>)
            in s1\<lparr>inputHandler := map_option disable (inputHandler s1)\<rparr>)
      else s)"

definition resumeGame :: "int \<Rightarrow> GameManager \<Rightarrow> GameManager" where
  "resumeGame now s =
     (if state s = Paused
      then (let s1 = s\<lparr>state := Playing\<rparr>;
                pausedTime = now - startTime s1 - currentTime s1;
                s2 = s1\<lparr>startTime := startTime s1 + pausedTime\<rparr>
            in startGameLoop (s2\<lparr>inputHandler := map_option enable (inputHandler s2)\<rparr>))
      else s)"

text \<open>\<open>restartGame()\<close>; \<open>g\<close> is the random source the new level is generated from.\<close>

definition restartGame :: "rng \<Rightarrow> GameManager \<Rightarrow> error + GameManager" where
  "restartGame g s =
     (let s1 = stopGameLoop s;
          s2 = s1\<lparr>inputHandler := map_option disable (inputHandler s1)\<rparr>;
          s3 = s2\<lparr>animationEngine := map_option (\<lambda>ae. ae\<lparr>isAnimating := False\<rparr>) (animationEngine s2)\<rparr>;
          r = (case levelGenerator s3 of
                 None \<Rightarrow> Inr s3
               | Some lg0 \<Rightarrow>
                   (let lg = generate g lg0;
                        s4 = s3\<lparr>levelGenerator := Some lg\<rparr>;
                        r5 = (case character s4 of
                                None \<Rightarrow> Inr s4
                              | Some c \<Rightarrow>
                                  (case getStartPosition lg of
                                     None \<Rightarrow> Inl TypeError
                                   | Some startPos \<Rightarrow>
                                       Inr (s4\<lparr>character :=
                                                  Some (Character_reset (Some (Num (x startPos)))
                                                          (Some (Num (y startPos))) c)\<rparr>)))
                    in case r5 of
                         Inl e \<Rightarrow> Inl e
                       | Inr s5 \<Rightarrow>
                           Inr (s5\<lparr>collisionDetector :=
                                      map_option
                                        (\<lambda>cd. CollisionDetector_reset
                                                (updateGoal (getGoalPosition lg)
                                                   (updateWalls (getWalls lg) cd)))
                                        (collisionDetector s5)\<rparr>)))
      in case r of
           Inl e \<Rightarrow> Inl e
         | Inr s6 \<Rightarrow>
             Inr (s6\<lparr>inputHandler := map_option InputHandler_reset (inputHandler s6),
                     state := Menu, startTime := 0, currentTime := 0, score := 0\<rparr>))"

definition showGameOverScreen :: "GameManager \<Rightarrow> GameManager" where
  "showGameOverScreen s = s\<lparr>events := events s @ [GameOverEvent (currentTime s) (difficulty s)]\<rparr>"

definition showVictoryScreen :: "GameManager \<Rightarrow> GameManager" where
  "showVictoryScreen s = s\<lparr>events := events s @ [VictoryEvent (score s) (difficulty s)]\<rparr>"

definition run_callback :: "callback \<Rightarrow> GameManager \<Rightarrow> GameManager" where
  "run_callback cb s =
     (case cb of ShowGameOverScreen \<Rightarrow> showGameOverScreen s | ShowVictoryScreen \<Rightarrow> showVictoryScreen s)"

text \<open>\<open>handleGameOver()\<close>; \<open>anow\<close> is \<open>Date.now()\<close> as \<open>playExplosion\<close> reads it.\<close>

definition handleGameOver :: "int \<Rightarrow> GameManager \<Rightarrow> GameManager" where
  "handleGameOver anow s =
     (let s1 = s\<lparr>state := Gameover\<rparr>;
          s2 = s1\<lparr>inputHandler := map_option disable (inputHandler s1)\<rparr>
      in case (animationEngine s2, collisionDetector s2) of
           (Some ae, Some cd) \<Rightarrow>
             (case getCollisionPoint cd of
                Some collisionPoint \<Rightarrow>
                  s2\<lparr>animationEngine := Some (playExplosion anow ShowGameOverScreen ae)\<rparr>
              | None \<Rightarrow> showGameOverScreen s2)
         | _ \<Rightarrow> showGameOverScreen s2)"

text \<open>\<open>handleGoalReached()\<close>; \<open>goalPos.x\<close> raises a TypeError when the goal is \<open>null\<close>.\<close>

definition handleGoalReached :: "int \<Rightarrow> GameManager \<Rightarrow> error + GameManager" where
  "handleGoalReached anow s =
     (let s1 = s\<lparr>state := Victory\<rparr>;
          s2 = s1\<lparr>score := currentTime s1\<rparr>;
          s3 = s2\<lparr>inputHandler := map_option disable (inputHandler s2)\<rparr>
      in case (animationEngine s3, levelGenerator s3) of
           (Some ae, Some lg) \<Rightarrow>
             (case getGoalPosition lg of
                None \<Rightarrow> Inl TypeError
              | Some goalPos \<Rightarrow>
                  Inr (s3\<lparr>animationEngine := Some (playVictory anow ShowVictoryScreen ae)\<rparr>))
         | _ \<Rightarrow> Inr (showVictoryScreen s3))"

text \<open>
  \<open>update(deltaTime)\<close>. \<open>now\<close> is \<open>Date.now()\<close> as the timer reads it, \<open>anow\<close> as the
  animation engine reads it later in the same call; \<open>deltaTime\<close> is used by nothing.
  \<open>animation_frame\<close> is the branch taken while an animation plays, \<open>gameplay_frame\<close> the rest
  of the method. A manager with a detector and no character arises from no method of the
  class; the model answers TypeError there.
\<close>

definition animation_frame :: "int \<Rightarrow> AnimationEngine \<Rightarrow> GameManager \<Rightarrow> GameManager" where
  "animation_frame anow ae s =
     (let r = AnimationEngine_update anow ae;
          s1 = s\<lparr>animationEngine := Some (fst r)\<rparr>
      in case snd r of None \<Rightarrow> s1 | Some cb \<Rightarrow> run_callback cb s1)"

definition gameplay_frame :: "int \<Rightarrow> GameManager \<Rightarrow> error + GameManager" where
  "gameplay_frame anow s =
     (let s1 = (case (character s, levelGenerator s) of
                  (Some c, Some lg) \<Rightarrow>
                    s\<lparr>character := Some (Character_update (to_num (getCharacterSpeed lg)) c)\<rparr>
                | _ \<Rightarrow> s)
      in case collisionDetector s1 of
           None \<Rightarrow> Inr s1
         | Some cd \<Rightarrow>
             (case character s1 of
                None \<Rightarrow> Inl TypeError
              | Some c \<Rightarrow>
                  (let w = checkWallCollision c cd;
                       s2 = s1\<lparr>collisionDetector := Some (snd w)\<rparr>
                   in if fst w then Inr (handleGameOver anow s2)
                      else
                        (case checkGoalCollision c (snd w) of
                           Inl e \<Rightarrow> Inl e
                         | Inr hit \<Rightarrow> if hit then handleGoalReached anow s2 else Inr s2))))"

definition GameManager_update :: "int \<Rightarrow> int \<Rightarrow> GameManager \<Rightarrow> error + GameManager" where
  "GameManager_update now anow s =
     (if state s \<noteq> Playing then Inr s
      else
        (let s1 = s\<lparr>currentTime := now - startTime s\<rparr>
         in case animationEngine s1 of
              None \<Rightarrow> gameplay_frame anow s1
            | Some ae \<Rightarrow>
                if isPlaying ae then Inr (animation_frame anow ae s1)
                else gameplay_frame anow s1))"

definition getCurrentState :: "GameManager \<Rightarrow> game_state" where
  "getCurrentState s = state s"

definition getCurrentScore :: "GameManager \<Rightarrow> int" where
  "getCurrentScore s = (if state s = Playing then currentTime s else score s)"

definition getDifficulty :: "GameManager \<Rightarrow> string" where
  "getDifficulty s = difficulty s"

definition destroy :: "GameManager \<Rightarrow> GameManager" where
  "destroy s =
     (let s1 = stopGameLoop s;
          s2 = s1\<lparr>inputHandler := map_option disable (inputHandler s1)\<rparr>
      in s2\<lparr>character := None, levelGenerator := None, collisionDetector := None,
            animationEngine := None, inputHandler := None\<rparr>)"

text \<open>A caller's frame loop: \<open>update\<close> once per pair of clock readings, stopping at an error.\<close>

fun run_updates :: "(int \<times> int) list \<Rightarrow> GameManager \<Rightarrow> error + GameManager" where
  "run_updates [] s = Inr s"
| "run_updates (t # ts) s =
     (case GameManager_update (fst t) (snd t) s of Inl e \<Rightarrow> Inl e | Inr s' \<Rightarrow> run_updates ts s')"

text \<open>What the specification says \<open>start\<close> amounts to while playing: restart, then start.\<close>

definition restart_then_start :: "rng \<Rightarrow> int \<Rightarrow> GameManager \<Rightarrow> error + GameManager" where
  "restart_then_start g now s =
     (case restartGame g s of Inl e \<Rightarrow> Inl e | Inr s' \<Rightarrow> startGame now s')"

text \<open>
  \<open>InputHandler.setDirection\<close>, which \<open>handleKeyDown\<close> calls for an arrow key: it records the
  direction and passes it to the manager's character.
\<close>

definition InputHandler_setDirection :: "string \<Rightarrow> GameManager \<Rightarrow> GameManager" where
  "InputHandler_setDirection d s =
     (case inputHandler s of
        None \<Rightarrow> s
      | Some ih \<Rightarrow>
          s\<lparr>inputHandler := Some (ih\<lparr>currentDirection := Some d\<rparr>),
            character := map_option (setDirection d) (character s)\<rparr>)"

text \<open>One call after another; an error ends the sequence.\<close>

definition and_then :: "error + 'a \<Rightarrow> ('a \<Rightarrow> error + 'b) \<Rightarrow> error + 'b" where
  "and_then r f = (case r of Inl e \<Rightarrow> Inl e | Inr v \<Rightarrow> f v)"

definition and_map :: "error + 'a \<Rightarrow> ('a \<Rightarrow> 'b) \<Rightarrow> error + 'b" where
  "and_map r f = (case r of Inl e \<Rightarrow> Inl e | Inr v \<Rightarrow> Inr (f v))"

section \<open>Example sessions and auxiliary predicates\<close>

text \<open>
  The session of the page: an 800 by 600 canvas, difficulty easy, the level generated from
  the random source \<open>g\<close>, started at time 1000.
\<close>

definition example_canvas :: canvas where
  "example_canvas = \<lparr>canvasWidth = 800, canvasHeight = 600\<rparr>"

definition easy_generator :: LevelGenerator where
  "easy_generator =
     \<lparr>lgWidth = 800, lgHeight = 600, lgDifficulty = ''easy'', settings = Settings 100 2,
      lgWalls = [], path = [], startPosition = None, goalPosition = None, waypoints = []\<rparr>"

definition example_session :: "rng \<Rightarrow> error + GameManager" where
  "example_session g =
     and_then (GameManager_new (Some example_canvas) ''easy'' True g) (startGame 1000)"

definition level_size :: "error + GameManager \<Rightarrow> nat option" where
  "level_size r =
     (case r of
        Inl e \<Rightarrow> None
      | Inr s \<Rightarrow> map_option (length \<circ> getWaypoints) (levelGenerator s))"

text \<open>
  A session on the level of the test suite's \<open>MockLevelGenerator\<close> (two walls, start at
  (100, 300)), in state \<open>st\<close>, with character \<open>c\<close> and the goal at \<open>gp\<close>.
\<close>

definition mock_level :: LevelGenerator where
  "mock_level =
     \<lparr>lgWidth = 800, lgHeight = 600, lgDifficulty = ''easy'', settings = Settings 100 2,
      lgWalls = [\<lparr>x = Num 0, y = Num 0, width = Num 50, height = Num 600\<rparr>,
                 \<lparr>x = Num 750, y = Num 0, width = Num 50, height = Num 600\<rparr>],
      path = [Some \<lparr>x = 100, y = 300\<rparr>, Some \<lparr>x = 700, y = 300\<rparr>],
      startPosition = Some \<lparr>x = 100, y = 300\<rparr>,
      goalPosition = Some \<lparr>x = 700, y = 300\<rparr>,
      waypoints = [\<lparr>x = 100, y = 300\<rparr>, \<lparr>x = 700, y = 300\<rparr>]\<rparr>"

definition mock_session :: "game_state \<Rightarrow> Character \<Rightarrow> real point \<Rightarrow> GameManager" where
  "mock_session st c gp =
     \<lparr>difficulty = ''easy'', state = st, startTime = 1000, currentTime = 5000, score = 0,
      gameLoopId = True, character = Some c, levelGenerator = Some mock_level,
      collisionDetector = Some (CollisionDetector_new (getWalls mock_level) (Some gp)),
      animationEngine = Some AnimationEngine_new,
      inputHandler = Some \<lparr>enabled = True, currentDirection = direction c\<rparr>, events = []\<rparr>"

definition left_mover :: Character where
  "left_mover = (Character_new (Num 50) (Num 300) (Num 10))\<lparr>direction := Some ''left''\<rparr>"

text \<open>Two rectangles with an edge of one on the line of the opposite edge of the other.\<close>

definition touching :: "num rect \<Rightarrow> num rect \<Rightarrow> bool" where
  "touching r1 r2 =
     (num_add (x r1) (width r1) = x r2 \<or> num_add (x r2) (width r2) = x r1 \<or>
      num_add (y r1) (height r1) = y r2 \<or> num_add (y r2) (height r2) = y r1)"

text \<open>
  The real numbers that are doubles: an integer significand of less than 53 bits times a
  power of two within the exponent range.
\<close>

definition is_double :: "real \<Rightarrow> bool" where
  "is_double r =
     (\<exists>m j. \<bar>m\<bar> < 2 ^ 53 \<and> - 1074 \<le> j \<and> j \<le> 971 \<and> r = of_int m * 2 powi j)"

text \<open>
  A random source that returns the elements of \<open>xs\<close> one after the other and \<open>d\<close> from then
  on.
\<close>

definition replay :: "real list \<Rightarrow> real \<Rightarrow> rng" where
  "replay xs d k = (if k < length xs then xs ! k else d)"

section \<open>Positions within the canvas\<close>


definition point_in_canvas :: "real \<Rightarrow> real \<Rightarrow> real point option \<Rightarrow> bool" where
  "point_in_canvas w h p =
     (case p of None \<Rightarrow> False | Some q \<Rightarrow> 0 \<le> x q \<and> x q \<le> w \<and> 0 \<le> y q \<and> y q \<le> h)"




section \<open>Rounding to a double\<close>

lemma round_ties_even_int: "round_ties_even (of_int z) = z"
  by (simp add: round_ties_even_def)

text \<open>A real number that is a double is rounded to itself.\<close>

lemma to_double_exact:
  assumes "is_double r"
  shows "to_double r = Num r"
proof (cases "r = 0")
  case True
  then show ?thesis by (simp add: to_double_def)
next
  case False
  from assms obtain m j where m: "\<bar>m\<bar> < 2 ^ 53" and j: "- 1074 \<le> j" "j \<le> 971"
    and r: "r = of_int m * 2 powi j"
    by (auto simp: is_double_def)
  define e where "e = \<lfloor>log 2 \<bar>r\<bar>\<rfloor>"
  define qe where "qe = quantum_exp r"
  have pos: "0 < \<bar>r\<bar>" using False by simp
  have "real_of_int \<bar>m\<bar> < real_of_int (2 ^ 53)" using m by (simp only: of_int_less_iff)
  then have mr: "\<bar>real_of_int m\<bar> < 2 ^ 53" by simp
  have "real_of_int \<bar>m\<bar> \<le> real_of_int (2 ^ 53 - 1)" using m by (simp only: of_int_le_iff)
  then have mr1: "\<bar>real_of_int m\<bar> \<le> 2 ^ 53 - 1" by simp
  have p2: "(0::real) < 2 powi j" by simp
  have "\<bar>r\<bar> = \<bar>real_of_int m\<bar> * 2 powi j" by (simp add: r abs_mult)
  also have "\<dots> < 2 ^ 53 * 2 powi j" using mr p2 by (rule mult_strict_right_mono)
  also have "\<dots> = 2 powi (53 + j)" by (simp add: power_int_add)
  also have "\<dots> = 2 powr real_of_int (53 + j)"
    by (rule powr_real_of_int' [symmetric]) simp_all
  finally have "log 2 \<bar>r\<bar> < real_of_int (53 + j)" using pos by (simp add: log_less_iff)
  then have "e < 53 + j" unfolding e_def by (simp add: floor_less_iff)
  then have qe_le: "qe \<le> j" using j by (simp add: qe_def quantum_exp_def e_def)
  define d where "d = nat (j - qe)"
  have jd: "j = qe + int d" using qe_le by (simp add: d_def)
  have split: "(2::real) powi j = 2 powi qe * 2 ^ d"
    unfolding jd by (simp add: power_int_add)
  have quot: "r / 2 powi qe = of_int (m * 2 ^ d)"
    by (simp add: r split)
  have v: "of_int (round_ties_even (r / 2 powi qe)) * 2 powi qe = r"
    unfolding quot round_ties_even_int by (simp add: r split)
  have "(2::real) powi j \<le> 2 powi 971" using j by (intro power_int_increasing) simp_all
  then have pj: "(2::real) powi j \<le> 2 ^ 971" by simp
  from mr1 have "\<bar>real_of_int m\<bar> * 2 powi j \<le> (2 ^ 53 - 1) * 2 ^ 971"
    using pj by (intro mult_mono) simp_all
  then have "\<bar>r\<bar> \<le> max_double" by (simp add: r abs_mult max_double_def)
  then have bounds: "\<not> max_double < r" "\<not> r < - max_double" by linarith+
  show ?thesis
    using False bounds v unfolding to_double_def Let_def qe_def by simp
qed

lemma is_double_numeral:
  "(numeral k :: int) < 2 ^ 53 \<Longrightarrow> is_double (numeral k)"
  unfolding is_double_def
  by (rule exI [of _ "numeral k"], rule exI [of _ 0]) simp

lemma to_double_numeral:
  "(numeral k :: int) < 2 ^ 53 \<Longrightarrow> to_double (numeral k) = Num (numeral k)"
  by (simp add: to_double_exact is_double_numeral)

lemma to_double_0: "to_double 0 = Num 0"
  by (simp add: to_double_def)

lemma max_double_ge: "2 ^ 53 \<le> max_double"
proof -
  have "(1::real) * 2 ^ 53 \<le> (2 ^ 53 - 1) * 2 ^ 971"
    by (intro mult_mono power_increasing) simp_all
  then show ?thesis by (simp add: max_double_def)
qed

text \<open>
  \<open>2 ^ 53 + 1 = 9007199254740993\<close> is no double: it lies halfway between the doubles \<open>2 ^ 53\<close>
  and \<open>2 ^ 53 + 2\<close>, and is rounded to the one with the even significand, \<open>2 ^ 53\<close>.
\<close>

lemma to_double_above_2_53: "to_double 9007199254740993 = Num 9007199254740992"
proof -
  have "real_of_int 53 \<le> log 2 9007199254740993"
    by (subst le_log_iff) (simp_all add: powr_real_of_int')
  moreover have "log 2 9007199254740993 < real_of_int 54"
    by (subst log_less_iff) (simp_all add: powr_real_of_int')
  ultimately have e: "\<lfloor>log 2 (9007199254740993::real)\<rfloor> = 53"
    by (subst floor_eq_iff) simp
  have a: "\<bar>9007199254740993::real\<bar> = 9007199254740993" by simp
  have q: "quantum_exp 9007199254740993 = 1" unfolding quantum_exp_def a e by simp
  have rt: "round_ties_even (9007199254740993 / 2) = 4503599627370496"
    by (simp add: round_ties_even_def Let_def)
  have v: "real_of_int (round_ties_even (9007199254740993 / 2 powi 1)) * 2 powi 1
      = 9007199254740992"
    by (simp add: rt)
  have nz: "(9007199254740993::real) \<noteq> 0" by simp
  have m1: "\<not> max_double < 9007199254740992" using max_double_ge by simp
  have m2: "\<not> (9007199254740992::real) < - max_double" using max_double_ge by simp
  show ?thesis
    unfolding to_double_def Let_def q v using nz m1 m2 by (simp only: if_False)
qed

section \<open>Character: heading and movement\<close>

lemma update_after_setDirection:
  "Character_update s (setDirection ''up'' c) = c\<lparr>direction := Some ''up'', y := num_sub (y c) s\<rparr>"
  "Character_update s (setDirection ''down'' c) = c\<lparr>direction := Some ''down'', y := num_add (y c) s\<rparr>"
  "Character_update s (setDirection ''left'' c) = c\<lparr>direction := Some ''left'', x := num_sub (x c) s\<rparr>"
  "Character_update s (setDirection ''right'' c) = c\<lparr>direction := Some ''right'', x := num_add (x c) s\<rparr>"
  by (simp_all add: Character_update_def setDirection_def validDirections_def)

text \<open>
  C3, as the code has it. Whatever the prior heading of the character \<open>c\<close>, \<open>setDirection d\<close>
  followed by \<open>update speed\<close> at the point \<open>(a, b)\<close> replaces the coordinate on the axis of
  \<open>d\<close> by the double nearest to that coordinate plus or minus \<open>speed\<close> (up is decreasing
  y), and changes nothing but that coordinate and the heading. The displacement is exactly
  \<open>speed\<close> whenever the exact sum or difference is a double. With the heading unset,
  \<open>update\<close> changes nothing.
\<close>

theorem heading_displacement:
  "Character_update (Num s) (setDirection ''up'' (c\<lparr>x := Num a, y := Num b\<rparr>))
     = c\<lparr>x := Num a, y := to_double (b - s), direction := Some ''up''\<rparr>
   \<and> Character_update (Num s) (setDirection ''down'' (c\<lparr>x := Num a, y := Num b\<rparr>))
     = c\<lparr>x := Num a, y := to_double (b + s), direction := Some ''down''\<rparr>
   \<and> Character_update (Num s) (setDirection ''left'' (c\<lparr>x := Num a, y := Num b\<rparr>))
     = c\<lparr>x := to_double (a - s), y := Num b, direction := Some ''left''\<rparr>
   \<and> Character_update (Num s) (setDirection ''right'' (c\<lparr>x := Num a, y := Num b\<rparr>))
     = c\<lparr>x := to_double (a + s), y := Num b, direction := Some ''right''\<rparr>
   \<and> (is_double (b - s) \<longrightarrow>
        Character_update (Num s) (setDirection ''up'' (c\<lparr>x := Num a, y := Num b\<rparr>))
          = c\<lparr>x := Num a, y := Num (b - s), direction := Some ''up''\<rparr>)
   \<and> (is_double (b + s) \<longrightarrow>
        Character_update (Num s) (setDirection ''down'' (c\<lparr>x := Num a, y := Num b\<rparr>))
          = c\<lparr>x := Num a, y := Num (b + s), direction := Some ''down''\<rparr>)
   \<and> (is_double (a - s) \<longrightarrow>
        Character_update (Num s) (setDirection ''left'' (c\<lparr>x := Num a, y := Num b\<rparr>))
          = c\<lparr>x := Num (a - s), y := Num b, direction := Some ''left''\<rparr>)
   \<and> (is_double (a + s) \<longrightarrow>
        Character_update (Num s) (setDirection ''right'' (c\<lparr>x := Num a, y := Num b\<rparr>))
          = c\<lparr>x := Num (a + s), y := Num b, direction := Some ''right''\<rparr>)
   \<and> Character_update speed (c\<lparr>direction := None\<rparr>) = c\<lparr>direction := None\<rparr>"
  by (simp add: update_after_setDirection to_double_exact) (simp add: Character_update_def)

theorem heading_displacement_witness:
  "is_double (300 - 2) \<and> is_double (300 + 2) \<and> is_double (50 - 2) \<and> is_double (50 + 2)
   \<and> Character_update (Num 2) (setDirection ''up'' (left_mover\<lparr>x := Num 50, y := Num 300\<rparr>))
       = left_mover\<lparr>x := Num 50, y := Num (300 - 2), direction := Some ''up''\<rparr>
   \<and> Character_update (Num 2) (setDirection ''down'' (left_mover\<lparr>x := Num 50, y := Num 300\<rparr>))
       = left_mover\<lparr>x := Num 50, y := Num (300 + 2), direction := Some ''down''\<rparr>
   \<and> Character_update (Num 2) (setDirection ''left'' (left_mover\<lparr>x := Num 50, y := Num 300\<rparr>))
       = left_mover\<lparr>x := Num (50 - 2), y := Num 300, direction := Some ''left''\<rparr>
   \<and> Character_update (Num 2) (setDirection ''right'' (left_mover\<lparr>x := Num 50, y := Num 300\<rparr>))
       = left_mover\<lparr>x := Num (50 + 2), y := Num 300, direction := Some ''right''\<rparr>"
proof -
  have h1: "is_double (300 - 2)" and h2: "is_double (300 + 2)"
    and h3: "is_double (50 - 2)" and h4: "is_double (50 + 2)"
    by (simp_all add: is_double_numeral)
  from heading_displacement [where s = 2 and c = left_mover and a = 50 and b = 300] h1 h2 h3 h4 show ?thesis by blast
qed

text \<open>
  C3 as stated fails where the sum is no double. A character at \<open>x = 2 ^ 53\<close> that heads
  right and is updated with speed 1 stays at \<open>x = 2 ^ 53\<close>: the exact sum \<open>2 ^ 53 + 1\<close> is
  rounded back to \<open>2 ^ 53\<close>.
\<close>

theorem update_at_2_53_does_not_move:
  "x (Character_update (Num 1) (setDirection ''right''
        (Character_new (Num 9007199254740992) (Num 0) (Num 10))))
     = Num 9007199254740992
   \<and> x (Character_update (Num 1) (setDirection ''right''
        (Character_new (Num 9007199254740992) (Num 0) (Num 10))))
     \<noteq> Num (9007199254740992 + 1)"
  by (simp add: update_after_setDirection Character_new_def to_double_above_2_53)

section \<open>Character: reset\<close>

lemma run_ops_initial:
  "(initialX (run_ops ops c), initialY (run_ops ops c)) = home_point (initialX c, initialY c) ops"
proof (induction ops arbitrary: c)
  case Nil
  show ?case by simp
next
  case (Cons a ops)
  show ?case
  proof (cases a)
    case (SetDirection d)
    then show ?thesis using Cons.IH [of "setDirection d c"]
      by (simp add: setDirection_def)
  next
    case (Update s)
    then show ?thesis using Cons.IH [of "Character_update s c"]
      by (simp add: Character_update_def split: option.splits)
  next
    case (Reset ax ay)
    then show ?thesis using Cons.IH [of "Character_reset ax ay c"]
      by (cases ax; cases ay) (simp_all add: Character_reset_def)
  qed
qed

text \<open>
  C7, as the code has it. After any sequence of operations on a character constructed at
  \<open>(x0, y0)\<close>, \<open>reset(a, b)\<close> puts it at \<open>(a, b)\<close> and \<open>reset()\<close> puts it at the point of the
  most recent two-argument reset of the sequence, or at \<open>(x0, y0)\<close> when there was none;
  both clear the heading.
\<close>

theorem reset_position:
  "x (Character_reset (Some a) (Some b) (run_ops ops (Character_new x0 y0 sz))) = a
   \<and> y (Character_reset (Some a) (Some b) (run_ops ops (Character_new x0 y0 sz))) = b
   \<and> direction (Character_reset (Some a) (Some b) (run_ops ops (Character_new x0 y0 sz))) = None
   \<and> (x (Character_reset None None (run_ops ops (Character_new x0 y0 sz))),
       y (Character_reset None None (run_ops ops (Character_new x0 y0 sz))))
      = home_point (x0, y0) ops
   \<and> direction (Character_reset None None (run_ops ops (Character_new x0 y0 sz))) = None"
  using run_ops_initial [of ops "Character_new x0 y0 sz"]
  by (simp add: Character_reset_def Character_new_def)

text \<open>
  C7 as stated fails: a character constructed at \<open>(0, 0)\<close> and reset to \<open>(5, 7)\<close> is put at
  \<open>(5, 7)\<close> by a following \<open>reset()\<close>, not at its construction point.
\<close>

theorem reset_returns_to_last_reset_point:
  "getPosition (Character_reset None None
      (run_ops [Reset (Some (Num 5)) (Some (Num 7))] (Character_new (Num 0) (Num 0) (Num 10))))
     = \<lparr>x = Num 5, y = Num 7\<rparr>
   \<and> \<lparr>x = Num 5, y = Num 7\<rparr> \<noteq> \<lparr>x = Num 0, y = Num (0::real)\<rparr>"
  by (simp add: Character_reset_def Character_new_def getPosition_def)

section \<open>LevelGenerator: difficulty table and validation\<close>

lemma generate_settings: "settings (generate g lg) = settings lg"
  by (simp add: generate_def generateWaypoints_def generatePath_def generateWalls_def
      setStartAndGoalPositions_def Let_def)

text \<open>
  C2. For each of the four difficulty tags, on any canvas and for any outcome of the random
  source, construction and generation succeed and the level's path width and character speed
  are those of the table: 100 and 2, 60 and 3, 40 and 4, 30 and 6.
\<close>

theorem difficulty_table:
  "(case newLevel w h ''easy'' g of
      Inl e \<Rightarrow> None | Inr lg \<Rightarrow> Some (getPathWidth lg, getCharacterSpeed lg))
     = Some (Some 100, Some 2)
   \<and> (case newLevel w h ''medium'' g of
      Inl e \<Rightarrow> None | Inr lg \<Rightarrow> Some (getPathWidth lg, getCharacterSpeed lg))
     = Some (Some 60, Some 3)
   \<and> (case newLevel w h ''hard'' g of
      Inl e \<Rightarrow> None | Inr lg \<Rightarrow> Some (getPathWidth lg, getCharacterSpeed lg))
     = Some (Some 40, Some 4)
   \<and> (case newLevel w h ''super-hard'' g of
      Inl e \<Rightarrow> None | Inr lg \<Rightarrow> Some (getPathWidth lg, getCharacterSpeed lg))
     = Some (Some 30, Some 6)"
  by (simp add: newLevel_def LevelGenerator_new_def difficultySettings_def getPathWidth_def
      getCharacterSpeed_def generate_settings)

text \<open>
  C4 at the difficulty string \<open>toString\<close>, which is outside the four tags: the lookup finds
  the member inherited from \<open>Object.prototype\<close>, the check \<open>!this.difficultySettings[difficulty]\<close>
  passes, and the constructor returns a level generator instead of raising.
\<close>

theorem constructor_accepts_inherited_key:
  "LevelGenerator_new 800 600 ''toString''
     = Inr \<lparr>lgWidth = 800, lgHeight = 600, lgDifficulty = ''toString'',
            settings = Inherited ''toString'', lgWalls = [], path = [], startPosition = None,
            goalPosition = None, waypoints = []\<rparr>"
  by (simp add: LevelGenerator_new_def difficultySettings_def Object_prototype_keys_def)

lemma constructor_rejects_other_strings:
  "d \<notin> set [''easy'', ''medium'', ''hard'', ''super-hard''] \<Longrightarrow> d \<notin> set Object_prototype_keys
   \<Longrightarrow> LevelGenerator_new w h d = Inl (InvalidDifficulty d)"
  by (simp add: LevelGenerator_new_def difficultySettings_def)

section \<open>LevelGenerator: start and goal\<close>

lemma generate_positions:
  "startPosition (generate g lg) = Some \<lparr>x = 50, y = lgHeight lg / 2\<rparr>"
  "goalPosition (generate g lg)
     = Some \<lparr>x = lgWidth lg - 50,
             y = 100 + g (1 + 2 * nat (3 + \<lfloor>g 0 * 3\<rfloor>)) * (lgHeight lg - 200)\<rparr>"
  by (simp_all add: generate_def generatePath_def generateWalls_def generateWaypoints_def
      setStartAndGoalPositions_def Let_def)

text \<open>
  C8, as the code has it. On a canvas wider than 100, for every outcome of the random source,
  the generated start point has x = 50, left of the middle of the canvas, and the goal point
  has x = width - 50, right of it.
\<close>

theorem start_left_goal_right:
  assumes "lgWidth lg > 100"
  shows "map_option x (getStartPosition (generate g lg)) = Some 50
         \<and> 50 < lgWidth lg / 2
         \<and> map_option x (getGoalPosition (generate g lg)) = Some (lgWidth lg - 50)
         \<and> lgWidth lg - 50 > lgWidth lg / 2"
  using assms by (simp add: getStartPosition_def getGoalPosition_def generate_positions)

theorem start_left_goal_right_witness:
  "lgWidth \<lparr>lgWidth = 800, lgHeight = 600, lgDifficulty = ''easy'', settings = Settings 100 2,
      lgWalls = [], path = [], startPosition = None, goalPosition = None, waypoints = []\<rparr> > 100
   \<and> map_option x (getStartPosition (generate (constant_source 0)
        \<lparr>lgWidth = 800, lgHeight = 600, lgDifficulty = ''easy'', settings = Settings 100 2,
         lgWalls = [], path = [], startPosition = None, goalPosition = None, waypoints = []\<rparr>))
       = Some 50
   \<and> map_option x (getGoalPosition (generate (constant_source 0)
        \<lparr>lgWidth = 800, lgHeight = 600, lgDifficulty = ''easy'', settings = Settings 100 2,
         lgWalls = [], path = [], startPosition = None, goalPosition = None, waypoints = []\<rparr>))
       = Some 750"
  using start_left_goal_right [of "\<lparr>lgWidth = 800, lgHeight = 600, lgDifficulty = ''easy'',
      settings = Settings 100 2, lgWalls = [], path = [], startPosition = None,
      goalPosition = None, waypoints = []\<rparr>" "constant_source 0"]
  by simp

text \<open>
  C8 as stated fails on a canvas of width 100: the start point has x = 50, which is the
  middle of the canvas and not left of it.
\<close>

theorem start_not_left_on_narrow_canvas:
  "(case newLevel 100 600 ''easy'' (constant_source 0) of
      Inl e \<Rightarrow> None | Inr lg \<Rightarrow> map_option x (getStartPosition lg)) = Some 50
   \<and> \<not> (50 :: real) < 100 / 2"
  by (simp add: newLevel_def LevelGenerator_new_def difficultySettings_def
      getStartPosition_def generate_positions)

section \<open>GameManager: frames outside the playing state\<close>

lemma update_not_playing: "state s \<noteq> Playing \<Longrightarrow> GameManager_update now anow s = Inr s"
  by (simp add: GameManager_update_def)

lemma run_updates_not_playing: "state s \<noteq> Playing \<Longrightarrow> run_updates ts s = Inr s"
  by (induction ts) (simp_all add: update_not_playing)

text \<open>
  C5. In every state other than playing, \<open>update\<close> raises no error and returns the session
  as it was (state, timer, score, character and everything else), and so does any number of
  further calls.
\<close>

theorem update_outside_playing:
  assumes "state s \<noteq> Playing"
  shows "GameManager_update now anow s = Inr s \<and> run_updates ts s = Inr s
         \<and> and_map (run_updates ts s) getCurrentScore = Inr (score s)"
  using assms
  by (simp add: update_not_playing run_updates_not_playing and_map_def getCurrentScore_def)

theorem update_outside_playing_witness:
  "state (mock_session Gameover left_mover \<lparr>x = 700, y = 300\<rparr>) \<noteq> Playing
   \<and> GameManager_update 6000 6001 (mock_session Gameover left_mover \<lparr>x = 700, y = 300\<rparr>)
       = Inr (mock_session Gameover left_mover \<lparr>x = 700, y = 300\<rparr>)
   \<and> run_updates [(6000, 6001), (6016, 6016), (6033, 6034)]
         (mock_session Gameover left_mover \<lparr>x = 700, y = 300\<rparr>)
       = Inr (mock_session Gameover left_mover \<lparr>x = 700, y = 300\<rparr>)"
proof -
  have h: "state (mock_session Gameover left_mover \<lparr>x = 700, y = 300\<rparr>) \<noteq> Playing"
    by (simp add: mock_session_def)
  from h update_outside_playing [OF h, of 6000 6001 "[(6000, 6001), (6016, 6016), (6033, 6034)]"]
  show ?thesis by blast
qed

section \<open>GameManager: a wall collision\<close>

lemma wall_hit_iff: "wall_hit b ws = (\<exists>w \<in> set ws. boundingBoxCollision b w)"
  by (induction ws) auto

lemma wall_hit_append: "wall_hit b (ws @ vs) = (wall_hit b ws \<or> wall_hit b vs)"
  by (induction ws) auto

lemma generate_walls:
  "lgWalls (generate g lg) =
     wall_loop (map_option (\<lambda>pathWidth. pathWidth / 2) (getPathWidth lg))
       (path (generate g lg))
     @ boundary_walls (lgWidth lg) (lgHeight lg)"
  by (simp add: generate_def generatePath_def generateWalls_def generateWaypoints_def
      setStartAndGoalPositions_def Let_def getPathWidth_def)

lemma new_session:
  "GameManager_new (Some example_canvas) ''easy'' True g =
    Inr \<lparr>difficulty = ''easy'', state = Menu, startTime = 0, currentTime = 0, score = 0,
         gameLoopId = False,
         character = Some (Character_new (Num 50) (Num 300) (Num 10)),
         levelGenerator = Some (generate g easy_generator),
         collisionDetector = Some (CollisionDetector_new (lgWalls (generate g easy_generator))
           (goalPosition (generate g easy_generator))),
         animationEngine = Some AnimationEngine_new,
         inputHandler = Some InputHandler_new, events = []\<rparr>"
  by (simp add: GameManager_new_def example_canvas_def LevelGenerator_new_def
      difficultySettings_def getStartPosition_def generate_positions Let_def getWalls_def
      getGoalPosition_def easy_generator_def)

lemma started_session:
  "example_session g =
    Inr \<lparr>difficulty = ''easy'', state = Playing, startTime = 1000, currentTime = 0, score = 0,
         gameLoopId = True,
         character = Some (Character_new (Num 50) (Num 300) (Num 10)),
         levelGenerator = Some (generate g easy_generator),
         collisionDetector = Some (CollisionDetector_new (lgWalls (generate g easy_generator))
           (goalPosition (generate g easy_generator))),
         animationEngine = Some AnimationEngine_new,
         inputHandler = Some (InputHandler_new\<lparr>enabled := True\<rparr>), events = []\<rparr>"
  unfolding example_session_def new_session and_then_def
  by (simp add: startGame_def getStartPosition_def generate_positions easy_generator_def
      Character_reset_def Character_new_def startGameLoop_def enable_def InputHandler_new_def)

text \<open>
  C1 on the session of the page, for any outcome \<open>g\<close> of the random source: the game is
  started at time 1000, the player steers left, and the frame at time 6000 moves the
  character from x = 50 to x = 48, into the left boundary wall. The session is then in
  state gameover with an elapsed time of 5000, and its score, as recorded and as
  \<open>getCurrentScore\<close> returns it, is 0.
\<close>

theorem gameover_leaves_score_unset:
  "(case and_then (and_map (example_session g) (InputHandler_setDirection ''left''))
           (GameManager_update 6000 6000) of
      Inl e \<Rightarrow> None
    | Inr s \<Rightarrow> Some (state s, currentTime s, score s, getCurrentScore s))
   = Some (Gameover, 5000, 0, 0)"
  unfolding started_session
  by (simp add: and_then_def and_map_def InputHandler_setDirection_def setDirection_def
      validDirections_def Character_new_def InputHandler_new_def GameManager_update_def
      AnimationEngine_new_def isPlaying_def gameplay_frame_def getCharacterSpeed_def
      generate_settings easy_generator_def to_num_def Character_update_def
      CollisionDetector_new_def checkWallCollision_def getBounds_def generate_walls
      wall_hit_append boundary_walls_def boundingBoxCollision_def handleGameOver_def
      getCollisionPoint_def playExplosion_def getCurrentScore_def disable_def Let_def
      to_double_numeral to_double_0)

section \<open>GameManager: start while playing\<close>

lemma length_waypoint_loop: "length (waypoint_loop sw h g k i n) = n"
  by (induction n arbitrary: k i) simp_all

lemma length_waypoints_generate:
  "length (waypoints (generate g lg)) = nat (3 + \<lfloor>g 0 * 3\<rfloor>) + 2"
  by (simp add: generate_def generatePath_def generateWalls_def generateWaypoints_def
      setStartAndGoalPositions_def Let_def length_waypoint_loop)

lemma start_keeps_level:
  "level_size (and_then (example_session (constant_source 0)) (startGame 2000)) = Some 5"
  unfolding started_session
  by (simp add: and_then_def startGame_def getStartPosition_def generate_positions
      level_size_def getWaypoints_def length_waypoints_generate constant_source_def
      startGameLoop_def)

lemma restart_makes_level:
  "level_size (and_then (example_session (constant_source 0))
      (restart_then_start (constant_source (1 / 2)) 2000)) = Some 6"
  unfolding started_session
  by (simp add: and_then_def restart_then_start_def restartGame_def startGame_def
      getStartPosition_def generate_positions level_size_def stopGameLoop_def
      getWaypoints_def length_waypoints_generate constant_source_def startGameLoop_def Let_def)

text \<open>
  C6 as stated fails. On the session of the page, whose level has 5 waypoints, \<open>start\<close> keeps
  that level, while restart followed by start generates a level anew, with 6 waypoints when
  the random source answers 1/2; the two sessions differ.
\<close>

theorem start_is_not_restart_then_start:
  "level_size (and_then (example_session (constant_source 0)) (startGame 2000)) = Some 5
   \<and> level_size (and_then (example_session (constant_source 0))
        (restart_then_start (constant_source (1 / 2)) 2000)) = Some 6
   \<and> and_then (example_session (constant_source 0)) (startGame 2000)
       \<noteq> and_then (example_session (constant_source 0))
            (restart_then_start (constant_source (1 / 2)) 2000)"
  using start_keeps_level restart_makes_level by auto

lemma startGameLoop_eq: "startGameLoop s = s\<lparr>gameLoopId := True\<rparr>"
  by (cases s) (simp add: startGameLoop_def)

text \<open>
  C6, as the code has it. \<open>start\<close> on a playing session whose level has a start point \<open>p\<close>
  raises no error and begins the run again in place: the start time is the current time,
  timer and score are zero, the character is at \<open>p\<close> with no heading, input is enabled and
  the frame loop runs. The level, the collision detector and the animation engine are the
  ones the session had: no level is discarded or generated.
\<close>

theorem start_while_playing:
  assumes "state s = Playing" and "character s = Some c" and "levelGenerator s = Some lg"
    and "getStartPosition lg = Some p"
  shows "startGame now s =
           Inr (s\<lparr>startTime := now, currentTime := 0, score := 0,
                  character := Some (c\<lparr>x := Num (x p), y := Num (y p), initialX := Num (x p),
                                       initialY := Num (y p), direction := None\<rparr>),
                  inputHandler := map_option enable (inputHandler s),
                  gameLoopId := True\<rparr>)
         \<and> and_map (startGame now s) levelGenerator = Inr (Some lg)
         \<and> and_map (startGame now s) collisionDetector = Inr (collisionDetector s)
         \<and> and_map (startGame now s) animationEngine = Inr (animationEngine s)"
  using assms
  by (simp add: startGame_def startGameLoop_eq Character_reset_def and_map_def Let_def)

theorem start_while_playing_witness:
  "state (mock_session Playing left_mover \<lparr>x = 700, y = 300\<rparr>) = Playing
   \<and> character (mock_session Playing left_mover \<lparr>x = 700, y = 300\<rparr>) = Some left_mover
   \<and> levelGenerator (mock_session Playing left_mover \<lparr>x = 700, y = 300\<rparr>) = Some mock_level
   \<and> getStartPosition mock_level = Some \<lparr>x = 100, y = 300\<rparr>
   \<and> and_map (startGame 9000 (mock_session Playing left_mover \<lparr>x = 700, y = 300\<rparr>))
        levelGenerator = Inr (Some mock_level)
   \<and> and_map (startGame 9000 (mock_session Playing left_mover \<lparr>x = 700, y = 300\<rparr>))
        collisionDetector
       = Inr (collisionDetector (mock_session Playing left_mover \<lparr>x = 700, y = 300\<rparr>))"
proof -
  have h1: "state (mock_session Playing left_mover \<lparr>x = 700, y = 300\<rparr>) = Playing"
    and h2: "character (mock_session Playing left_mover \<lparr>x = 700, y = 300\<rparr>) = Some left_mover"
    and h3: "levelGenerator (mock_session Playing left_mover \<lparr>x = 700, y = 300\<rparr>) = Some mock_level"
    and h4: "getStartPosition mock_level = Some \<lparr>x = 100, y = 300\<rparr>"
    by (simp_all add: mock_session_def mock_level_def getStartPosition_def)
  from start_while_playing [OF h1 h2 h3 h4, of 9000] h1 h2 h3 h4
  show ?thesis by blast
qed

section \<open>GameManager: the order of the collision tests\<close>

lemma num_gt_irrefl: "\<not> num_gt a a"
  by (cases a) simp_all

lemma num_lt_irrefl: "\<not> num_lt a a"
  by (cases a) simp_all

lemma touching_no_collision: "touching r1 r2 \<Longrightarrow> \<not> boundingBoxCollision r1 r2"
  by (auto simp: touching_def boundingBoxCollision_def num_gt_irrefl num_lt_irrefl)

lemma wall_collision_gameover:
  assumes "state s = Playing"
    and "case animationEngine s of None \<Rightarrow> True | Some ae \<Rightarrow> \<not> isPlaying ae"
    and "character s = Some c" and "collisionDetector s = Some cd"
    and "wall_hit (getBounds (case levelGenerator s of
            None \<Rightarrow> c | Some lg \<Rightarrow> Character_update (to_num (getCharacterSpeed lg)) c)) (walls cd)"
  shows "and_map (GameManager_update now anow s) state = Inr Gameover"
  using assms
  by (auto simp: GameManager_update_def gameplay_frame_def checkWallCollision_def and_map_def
      handleGameOver_def Let_def getCollisionPoint_def showGameOverScreen_def
      split: option.splits)

text \<open>
  C10. In a frame of a playing session in which no animation plays, with \<open>moved\<close> the
  character after its move: when the bounds of \<open>moved\<close> overlap a wall of the detector and
  also the goal hit-box, the session ends the frame in state gameover. And overlap is
  strict: rectangles that touch along an edge do not collide, so a character touching a
  wall is not reported by \<open>checkWallCollision\<close>, and one touching the goal hit-box is not
  reported by \<open>checkGoalCollision\<close>.
\<close>

theorem wall_test_precedes_goal_test:
  "(state s = Playing
     \<and> (case animationEngine s of None \<Rightarrow> True | Some ae \<Rightarrow> \<not> isPlaying ae)
     \<and> character s = Some c \<and> collisionDetector s = Some cd
     \<and> moved = (case levelGenerator s of
                  None \<Rightarrow> c | Some lg \<Rightarrow> Character_update (to_num (getCharacterSpeed lg)) c)
     \<and> wall \<in> set (walls cd) \<and> boundingBoxCollision (getBounds moved) wall
     \<and> checkGoalCollision moved cd = Inr True
     \<longrightarrow> and_map (GameManager_update now anow s) state = Inr Gameover)
   \<and> (touching r1 r2 \<longrightarrow> \<not> boundingBoxCollision r1 r2)
   \<and> (touching (getBounds c') w \<longrightarrow> fst (checkWallCollision c' (cd'\<lparr>walls := [w]\<rparr>)) = False)
   \<and> (goal cd' = Some gp \<and> touching (getBounds c') (goalBounds cd' gp)
       \<longrightarrow> checkGoalCollision c' cd' = Inr False)"
proof -
  have "wall_hit (getBounds moved) (walls cd)"
    if "wall \<in> set (walls cd)" and "boundingBoxCollision (getBounds moved) wall"
    using that by (auto simp: wall_hit_iff)
  then show ?thesis
    using wall_collision_gameover [of s c cd now anow]
    by (auto simp: touching_no_collision checkWallCollision_def checkGoalCollision_def Let_def)
qed

theorem wall_test_precedes_goal_test_witness:
  "state (mock_session Playing left_mover \<lparr>x = 40, y = 300\<rparr>) = Playing
   \<and> \<lparr>x = Num 0, y = Num 0, width = Num 50, height = Num 600\<rparr>
        \<in> set (walls (CollisionDetector_new (getWalls mock_level) (Some \<lparr>x = 40, y = 300\<rparr>)))
   \<and> boundingBoxCollision (getBounds (left_mover\<lparr>x := Num 48\<rparr>))
        \<lparr>x = Num 0, y = Num 0, width = Num 50, height = Num 600\<rparr>
   \<and> checkGoalCollision (left_mover\<lparr>x := Num 48\<rparr>)
        (CollisionDetector_new (getWalls mock_level) (Some \<lparr>x = 40, y = 300\<rparr>)) = Inr True
   \<and> and_map (GameManager_update 6000 6000 (mock_session Playing left_mover \<lparr>x = 40, y = 300\<rparr>))
        state = Inr Gameover
   \<and> touching (getBounds left_mover) \<lparr>x = Num 0, y = Num 0, width = Num 50, height = Num 600\<rparr>
   \<and> \<not> boundingBoxCollision (getBounds left_mover)
        \<lparr>x = Num 0, y = Num 0, width = Num 50, height = Num 600\<rparr>
   \<and> fst (checkWallCollision left_mover
        ((CollisionDetector_new [] (Some \<lparr>x = 75, y = 300\<rparr>))
           \<lparr>walls := [\<lparr>x = Num 0, y = Num 0, width = Num 50, height = Num 600\<rparr>]\<rparr>)) = False
   \<and> touching (getBounds left_mover)
        (goalBounds (CollisionDetector_new [] (Some \<lparr>x = 75, y = 300\<rparr>)) \<lparr>x = 75, y = 300\<rparr>)
   \<and> checkGoalCollision left_mover (CollisionDetector_new [] (Some \<lparr>x = 75, y = 300\<rparr>))
       = Inr False"
proof -
  have h1: "state (mock_session Playing left_mover \<lparr>x = 40, y = 300\<rparr>) = Playing"
    and h2: "case animationEngine (mock_session Playing left_mover \<lparr>x = 40, y = 300\<rparr>) of
               None \<Rightarrow> True | Some ae \<Rightarrow> \<not> isPlaying ae"
    and h3: "character (mock_session Playing left_mover \<lparr>x = 40, y = 300\<rparr>) = Some left_mover"
    and h4: "collisionDetector (mock_session Playing left_mover \<lparr>x = 40, y = 300\<rparr>)
               = Some (CollisionDetector_new (getWalls mock_level) (Some \<lparr>x = 40, y = 300\<rparr>))"
    and h5: "left_mover\<lparr>x := Num 48\<rparr>
               = (case levelGenerator (mock_session Playing left_mover \<lparr>x = 40, y = 300\<rparr>) of
                    None \<Rightarrow> left_mover
                  | Some lg \<Rightarrow> Character_update (to_num (getCharacterSpeed lg)) left_mover)"
    by (simp_all add: mock_session_def mock_level_def left_mover_def Character_new_def
        AnimationEngine_new_def isPlaying_def getCharacterSpeed_def to_num_def
        Character_update_def to_double_numeral)
  have h6: "\<lparr>x = Num 0, y = Num 0, width = Num 50, height = Num 600\<rparr>
        \<in> set (walls (CollisionDetector_new (getWalls mock_level) (Some \<lparr>x = 40, y = 300\<rparr>)))"
    and h7: "boundingBoxCollision (getBounds (left_mover\<lparr>x := Num 48\<rparr>))
        \<lparr>x = Num 0, y = Num 0, width = Num 50, height = Num 600\<rparr>"
    and h8: "checkGoalCollision (left_mover\<lparr>x := Num 48\<rparr>)
        (CollisionDetector_new (getWalls mock_level) (Some \<lparr>x = 40, y = 300\<rparr>)) = Inr True"
    and h9: "touching (getBounds left_mover)
        \<lparr>x = Num 0, y = Num 0, width = Num 50, height = Num 600\<rparr>"
    and h10: "goal (CollisionDetector_new [] (Some \<lparr>x = 75, y = 300\<rparr>)) = Some \<lparr>x = 75, y = 300\<rparr>"
    and h11: "touching (getBounds left_mover)
        (goalBounds (CollisionDetector_new [] (Some \<lparr>x = 75, y = 300\<rparr>)) \<lparr>x = 75, y = 300\<rparr>)"
    by (simp_all add: mock_level_def left_mover_def Character_new_def
        CollisionDetector_new_def getWalls_def getBounds_def goalBounds_def
        boundingBoxCollision_def checkGoalCollision_def touching_def to_double_numeral
        to_double_0)
  from wall_test_precedes_goal_test
    [where s = "mock_session Playing left_mover \<lparr>x = 40, y = 300\<rparr>" and c = left_mover
       and cd = "CollisionDetector_new (getWalls mock_level) (Some \<lparr>x = 40, y = 300\<rparr>)"
       and moved = "left_mover\<lparr>x := Num 48\<rparr>"
       and wall = "\<lparr>x = Num 0, y = Num 0, width = Num 50, height = Num 600\<rparr>"
       and now = 6000 and anow = 6000
       and ?r1.0 = "getBounds left_mover"
       and ?r2.0 = "\<lparr>x = Num 0, y = Num 0, width = Num 50, height = Num 600\<rparr>"
       and c' = left_mover
       and w = "\<lparr>x = Num 0, y = Num 0, width = Num 50, height = Num 600\<rparr>"
       and cd' = "CollisionDetector_new [] (Some \<lparr>x = 75, y = 300\<rparr>)"
       and gp = "\<lparr>x = 75, y = 300\<rparr>"]
    h1 h2 h3 h4 h5 h6 h7 h8 h9 h10 h11
  show ?thesis by blast
qed

section \<open>LevelGenerator: the path and the walls within the canvas\<close>










lemma generate_path:
  "path (generate g lg) =
     fst (path_loop (waypoints (fst (generateWaypoints g 0 lg))) g (snd (generateWaypoints g 0 lg)))"
  by (simp add: generate_def generatePath_def generateWalls_def setStartAndGoalPositions_def
      Let_def)

lemma generateWaypoints_dims:
  "lgWidth (fst (generateWaypoints g k lg)) = lgWidth lg"
  "lgHeight (fst (generateWaypoints g k lg)) = lgHeight lg"
  by (simp_all add: generateWaypoints_def Let_def)



lemma nine_tenths_ok: "rng_ok (constant_source (9 / 10))"
  by (simp add: rng_ok_def constant_source_def)


subsection \<open>A wall square outside the canvas\<close>

lemma generate_waypoints:
  "waypoints (generate g lg) = waypoints (fst (generateWaypoints g 0 lg))"
  by (simp add: generate_def generatePath_def generateWalls_def
      setStartAndGoalPositions_def Let_def)

lemma waypoint_loop_5:
  "waypoint_loop sw h g k i 5 =
     \<lparr>x = 50 + sw * real i + (g k - 1 / 2) * 50, y = 100 + g (k + 1) * (h - 200)\<rparr>
     # waypoint_loop sw h g (k + 2) (Suc i) 4"
proof -
  have "(5 :: nat) = Suc 4" by simp
  then show ?thesis by (simp only: waypoint_loop.simps)
qed





subsection \<open>A NaN path point on a canvas less than 480 wide\<close>

lemma replay_ok:
  assumes "list_all (\<lambda>r. 0 \<le> r \<and> r < 1) rs" and "0 \<le> d" and "d < 1"
  shows "rng_ok (replay rs d)"
  using assms by (simp add: rng_ok_def replay_def list_all_length)

lemma replay_beyond: "length rs \<le> k \<Longrightarrow> replay rs d k = d"
  by (simp add: replay_def)

lemma path_loop_three:
  "fst (path_loop (s # e # f # rest) g k) =
     segment_loop s e (segment_steps s e) g k 0 (segment_steps s e + 1)
     @ segment_loop e f (segment_steps e f) g (k + 2 * (segment_steps s e + 1)) 0
         (segment_steps e f + 1)
     @ fst (path_loop (f # rest) g
         (k + 2 * (segment_steps s e + 1) + 2 * (segment_steps e f + 1)))"
  by (simp add: Let_def)

text \<open>Two consecutive waypoints less than 5 apart: the segment has 0 steps.\<close>

lemma close_steps:
  assumes "\<bar>x f - x e\<bar> < 5" and "y f = y e"
  shows "segment_steps e f = 0"
proof -
  have "sqrt ((x f - x e)\<^sup>2 + (y f - y e)\<^sup>2) = \<bar>x f - x e\<bar>" using assms(2) by simp
  then have "\<lfloor>sqrt ((x f - x e)\<^sup>2 + (y f - y e)\<^sup>2) / 5\<rfloor> = 0"
    using assms(1) by (simp add: floor_eq_iff)
  then show ?thesis by (simp add: segment_steps_def)
qed

lemma path_has_nan:
  assumes "segment_steps e f = 0"
  shows "None \<in> set (fst (path_loop (s # e # f # rest) g k))"
  unfolding path_loop_three assms by (simp add: Let_def)

lemma waypoint_loop_4:
  "waypoint_loop sw h g k i 4 =
     \<lparr>x = 50 + sw * real i + (g k - 1 / 2) * 50, y = 100 + g (k + 1) * (h - 200)\<rparr>
     # waypoint_loop sw h g (k + 2) (Suc i) 3"
proof -
  have "(4 :: nat) = Suc 3" by simp
  then show ?thesis by (simp only: waypoint_loop.simps)
qed

text \<open>
  The random results \<open>9/10\<close> (five inner waypoints), then \<open>a\<close> and 0 for the first inner
  waypoint, \<open>b\<close> and 0 for the second, and 0 from then on.
\<close>

lemma narrow_waypoints:
  "\<exists>rest. waypoints (generate (replay [9 / 10, a, 0, b, 0] 0) lg)
     = \<lparr>x = 50, y = lgHeight lg / 2\<rparr>
       # \<lparr>x = 50 + (lgWidth lg - 150) / 6 + (a - 1 / 2) * 50, y = 100\<rparr>
       # \<lparr>x = 50 + (lgWidth lg - 150) / 6 * 2 + (b - 1 / 2) * 50, y = 100\<rparr> # rest"
  unfolding generate_waypoints
  by (simp add: generateWaypoints_def Let_def waypoint_loop_5 waypoint_loop_4 replay_def
      numeral_2_eq_2 numeral_3_eq_3)

lemma nan_point:
  assumes "\<bar>(lgWidth lg - 150) / 6 + (b - a) * 50\<bar> < 5"
  shows "None \<in> set (path (generate (replay [9 / 10, a, 0, b, 0] 0) lg))"
proof -
  obtain rest where w: "waypoints (generate (replay [9 / 10, a, 0, b, 0] 0) lg)
     = \<lparr>x = 50, y = lgHeight lg / 2\<rparr>
       # \<lparr>x = 50 + (lgWidth lg - 150) / 6 + (a - 1 / 2) * 50, y = 100\<rparr>
       # \<lparr>x = 50 + (lgWidth lg - 150) / 6 * 2 + (b - 1 / 2) * 50, y = 100\<rparr> # rest"
    using narrow_waypoints by blast
  have eq: "(50 + (lgWidth lg - 150) / 6 * 2 + (b - 1 / 2) * 50)
      - (50 + (lgWidth lg - 150) / 6 + (a - 1 / 2) * 50)
      = (lgWidth lg - 150) / 6 + (b - a) * 50"
    by argo
  have lt: "\<bar>(50 + (lgWidth lg - 150) / 6 * 2 + (b - 1 / 2) * 50)
      - (50 + (lgWidth lg - 150) / 6 + (a - 1 / 2) * 50)\<bar> < 5"
    unfolding eq by (rule assms)
  have st: "segment_steps
      \<lparr>x = 50 + (lgWidth lg - 150) / 6 + (a - 1 / 2) * 50, y = 100\<rparr>
      \<lparr>x = 50 + (lgWidth lg - 150) / 6 * 2 + (b - 1 / 2) * 50, y = 100\<rparr> = 0"
    using lt by (intro close_steps) simp_all
  show ?thesis
    unfolding generate_path
    unfolding generate_waypoints [symmetric] w
    by (rule path_has_nan [OF st])
qed

lemma nan_outside: "None \<in> set ps \<Longrightarrow> \<not> list_all (point_in_canvas w h) ps"
  by (induction ps) (auto simp: point_in_canvas_def)

text \<open>A canvas of negative width holds no point, and a path is never empty.\<close>

lemma path_nonempty: "path (generate g lg) \<noteq> []"
proof -
  obtain e rest where w: "waypoints (fst (generateWaypoints g 0 lg))
      = \<lparr>x = 50, y = lgHeight lg / 2\<rparr> # e # rest"
    by (cases "waypoint_loop ((lgWidth lg - 150) / (real_of_int (3 + \<lfloor>g 0 * 3\<rfloor>) + 1))
          (lgHeight lg) g 1 1 (nat (3 + \<lfloor>g 0 * 3\<rfloor>))")
      (simp_all add: generateWaypoints_def Let_def)
  show ?thesis unfolding generate_path w by (simp add: Let_def)
qed

lemma empty_canvas:
  assumes "w < 0"
  shows "\<not> list_all (point_in_canvas w h) (path (generate g lg))"
proof -
  have "\<not> point_in_canvas w h p" for p
    using assms by (cases p) (simp_all add: point_in_canvas_def)
  then show ?thesis using path_nonempty [of g lg]
    by (cases "path (generate g lg)") simp_all
qed

text \<open>
  The bound 480 on the width is the least possible: on every narrower canvas some outcome
  of the random source gives a path with a point outside the canvas.
\<close>

lemma width_bound_needed:
  assumes "lgWidth lg < 480"
  shows "\<exists>g. rng_ok g
           \<and> \<not> list_all (point_in_canvas (lgWidth lg) (lgHeight lg)) (getPath (generate g lg))"
proof (cases "lgWidth lg < 0")
  case True
  have "rng_ok (constant_source (9 / 10))" by (rule nine_tenths_ok)
  then show ?thesis using empty_canvas [OF True] by (auto simp: getPath_def)
next
  case False
  define sw where "sw = (lgWidth lg - 150) / 6"
  define a b where "a = max 0 (sw / 55)" and "b = max 0 (- sw / 55)"
  have sw: "- 25 \<le> sw" "sw < 55" using False assms by (simp_all add: sw_def)
  have ok: "rng_ok (replay [9 / 10, a, 0, b, 0] 0)"
    using sw by (intro replay_ok) (simp_all add: a_def b_def)
  have "b - a = - sw / 55" by (simp add: a_def b_def max_def)
  then have "sw + (b - a) * 50 = sw / 11" by simp
  then have "\<bar>sw + (b - a) * 50\<bar> < 5" using sw by simp
  then have "None \<in> set (path (generate (replay [9 / 10, a, 0, b, 0] 0) lg))"
    unfolding sw_def by (rule nan_point)
  then show ?thesis using ok nan_outside by (auto simp: getPath_def)
qed

subsection \<open>A path point below a canvas less than 107.5 high\<close>

lemma segment_loop_length: "length (segment_loop s e steps g k t m) = m"
  by (induction m arbitrary: k t) (simp_all add: Let_def)

text \<open>The y coordinate of the point pushed by the iteration \<open>i\<close> of the inner loop.\<close>

lemma segment_loop_nth:
  "i < m \<Longrightarrow> 0 < steps \<Longrightarrow>
   map_option y (segment_loop s e steps g k t m ! i) =
     Some ((1 - real (t + i) / real steps)\<^sup>2 * y s
           + 2 * (1 - real (t + i) / real steps) * (real (t + i) / real steps)
             * ((y s + y e) / 2 + (g (k + 2 * i + 1) - 1 / 2) * 30)
           + (real (t + i) / real steps)\<^sup>2 * y e)"
proof (induction m arbitrary: k t i)
  case 0
  then show ?case by simp
next
  case (Suc m)
  show ?case
  proof (cases i)
    case 0
    then show ?thesis using Suc.prems by (simp add: Let_def)
  next
    case (Suc i')
    have "i' < m" using Suc.prems(1) Suc by simp
    from Suc.IH [OF this Suc.prems(2), of "k + 2" "Suc t"] Suc
    show ?thesis by (simp add: Let_def add.commute add.left_commute)
  qed
qed

lemma low_waypoints:
  assumes "lgWidth lg = 800"
  shows "waypoints (generate (replay [0, 0, 0, 0, 0, 0, 0, 0] c) lg)
     = [\<lparr>x = 50, y = lgHeight lg / 2\<rparr>, \<lparr>x = 375 / 2, y = 100\<rparr>, \<lparr>x = 350, y = 100\<rparr>,
        \<lparr>x = 1025 / 2, y = 100\<rparr>, \<lparr>x = 750, y = 100\<rparr>]"
  unfolding generate_waypoints
  by (simp add: generateWaypoints_def Let_def assms replay_def numeral_2_eq_2 numeral_3_eq_3)

lemma generateWaypoints_draws: "g 0 = 0 \<Longrightarrow> snd (generateWaypoints g 0 lg) = 8"
  by (simp add: generateWaypoints_def Let_def)

lemma second_steps: "segment_steps \<lparr>x = 375 / 2, y = 100\<rparr> \<lparr>x = 350, y = 100\<rparr> = 32"
proof -
  have "sqrt ((350 - 375 / 2)\<^sup>2 + (100 - 100)\<^sup>2) = \<bar>350 - 375 / 2 :: real\<bar>"
    by (simp only: diff_self zero_power2 add_0_right real_sqrt_abs)
  then have "sqrt ((350 - 375 / 2)\<^sup>2 + (100 - 100)\<^sup>2) = (325 / 2 :: real)" by simp
  then show ?thesis by (simp add: segment_steps_def)
qed

text \<open>
  With the first eight random results 0 and all later ones \<open>c\<close>, on a canvas 800 wide: the
  waypoints are at the height 100, and the middle point of the second segment at the
  height \<open>92.5 + 15 c\<close>.
\<close>

lemma middle_point:
  assumes "lgWidth lg = 800"
  shows "\<exists>p. Some p \<in> set (path (generate (replay [0, 0, 0, 0, 0, 0, 0, 0] c) lg))
           \<and> y p = 185 / 2 + 15 * c"
proof -
  define g where "g = replay [0, 0, 0, 0, 0, 0, 0, 0] c"
  define s e :: "real point" where "s = \<lparr>x = 375 / 2, y = 100\<rparr>" and "e = \<lparr>x = 350, y = 100\<rparr>"
  define k where "k = snd (generateWaypoints g 0 lg)
    + 2 * (segment_steps \<lparr>x = 50, y = lgHeight lg / 2\<rparr> s + 1)"
  define seg where "seg = segment_loop s e 32 g k 0 33"
  have "g 0 = 0" by (simp add: g_def replay_def)
  then have k8: "8 \<le> k" using generateWaypoints_draws [of g lg] by (simp add: k_def)
  then have gc: "g (k + 33) = c" unfolding g_def by (intro replay_beyond) simp
  have len: "16 < length seg" by (simp add: seg_def segment_loop_length)
  have "map_option y (seg ! 16) = Some (185 / 2 + 15 * c)"
    unfolding seg_def
    by (subst segment_loop_nth) (simp_all add: gc s_def e_def power2_eq_square algebra_simps)
  then obtain p where p: "seg ! 16 = Some p" "y p = 185 / 2 + 15 * c" by auto
  have "Some p \<in> set seg" using nth_mem [OF len] p(1) by simp
  moreover have "set seg \<subseteq> set (path (generate g lg))"
    unfolding generate_path
    unfolding generate_waypoints [symmetric] g_def low_waypoints [OF assms]
    unfolding path_loop_three
    by (auto simp: seg_def s_def e_def k_def g_def second_steps)
  ultimately show ?thesis using p(2) unfolding g_def by blast
qed

lemma above_canvas:
  assumes "lgWidth lg = 800" and "h < 185 / 2 + 15 * c"
  shows "\<not> list_all (point_in_canvas w h) (path (generate (replay [0, 0, 0, 0, 0, 0, 0, 0] c) lg))"
proof -
  obtain p where mem: "Some p \<in> set (path (generate (replay [0, 0, 0, 0, 0, 0, 0, 0] c) lg))"
    and p: "y p = 185 / 2 + 15 * c"
    using middle_point [OF assms(1)] by blast
  have "\<not> point_in_canvas w h (Some p)" using p assms(2) by (simp add: point_in_canvas_def)
  then show ?thesis using mem by (auto simp: list_all_iff)
qed

text \<open>
  The bound 107.5 on the height is the least possible: on every lower canvas 800 wide some
  outcome of the random source gives a path with a point outside the canvas.
\<close>

lemma height_bound_needed:
  assumes "lgWidth lg = 800" and "lgHeight lg < 215 / 2"
  shows "\<exists>g. rng_ok g
           \<and> \<not> list_all (point_in_canvas (lgWidth lg) (lgHeight lg)) (getPath (generate g lg))"
proof -
  define c where "c = max (1 / 2) ((lgHeight lg - 155 / 2) / 30)"
  have lower: "1 / 2 \<le> c" "(lgHeight lg - 155 / 2) / 30 \<le> c" by (simp_all add: c_def)
  then have "lgHeight lg - 155 / 2 \<le> 30 * c" by (simp add: divide_le_eq mult.commute)
  then have c3: "lgHeight lg < 185 / 2 + 15 * c" using assms(2) by linarith
  have "(lgHeight lg - 155 / 2) / 30 < 1" using assms(2) by simp
  then have "c < 1" by (simp add: c_def)
  then have c: "0 \<le> c" "c < 1" "lgHeight lg < 185 / 2 + 15 * c"
    using lower(1) c3 by simp_all
  have "rng_ok (replay [0, 0, 0, 0, 0, 0, 0, 0] c)"
    using c by (intro replay_ok) simp_all
  then show ?thesis using above_canvas [OF assms(1) c(3)] by (auto simp: getPath_def)
qed



end
